theory Spec2Isabelle
  imports Complex_Main "HOL-Library.Word" "HOL-Library.AList"
begin

unbundle bit_operations_syntax

section \<open>The world outside the module\<close>

text \<open>
  \<^verbatim>\<open>common/network.py\<close> is a set of helpers around the operating system: a
  \<^verbatim>\<open>ping\<close> process, sockets, HTTP requests and the hardware node identifier. Every call
  that leaves the module is recorded in a log, and its outcome is given by an environment
  that may look at the whole log so far: the same call can answer differently each time.

  Exceptions are values. \<open>exn\<close> stands for the subclasses of Python's \<^verbatim>\<open>Exception\<close>:
  \<^verbatim>\<open>subprocess.TimeoutExpired\<close>, which \<^verbatim>\<open>ping_host\<close> tells apart, and every other one with
  the text \<^verbatim>\<open>str(e)\<close> gives. \<^verbatim>\<open>KeyboardInterrupt\<close> and \<^verbatim>\<open>SystemExit\<close> are not subclasses
  of \<^verbatim>\<open>Exception\<close> and are outside the model, and so is a failing import of a
  standard-library module. Strings are lists of characters with code points below 256;
  integers are unbounded, timeouts are integers (a float timeout with an integral value
  builds the same command line).
\<close>

datatype exn = TimeoutExpired | OtherException string

datatype event =
    EWhich string
  | ESystem
  | ERun "string list" int
  | ESocket
  | ESetTimeout
  | EUdpConnect string int
  | EGetSockName
  | ESockClose
  | ECreateConnection string int int
  | EConnClose
  | EUrlOpen string int
  | ERespRead
  | ERespClose
  | EGetNode
  | EPrint string

type_synonym log = "event list"

record completed_process =
  returncode :: int
  stdout :: "string option"
  stderr :: "string option"

text \<open>What \<^verbatim>\<open>json.loads\<close> returns, and what \<^verbatim>\<open>obj.get("ip")\<close> can therefore be.\<close>

datatype json =
    JNull
  | JBool bool
  | JInt int
  | JFloat rat
  | JStr string
  | JArr "json list"
  | JObj "(string \<times> json) list"

text \<open>
  The address of an \<^verbatim>\<open>AF_INET\<close> socket is four octets, the first one leading the
  dotted form that \<^verbatim>\<open>getsockname()[0]\<close> gives.
\<close>

type_synonym ipv4 = "8 word \<times> 8 word \<times> 8 word \<times> 8 word"

record env =
  shutil_which :: "log \<Rightarrow> string \<Rightarrow> exn + string option"
  platform_system :: "log \<Rightarrow> exn + string"
  subprocess_run :: "log \<Rightarrow> string list \<Rightarrow> int \<Rightarrow> exn + completed_process"
  socket_socket :: "log \<Rightarrow> exn + unit"
  sock_settimeout :: "log \<Rightarrow> exn + unit"
  sock_connect :: "log \<Rightarrow> string \<Rightarrow> int \<Rightarrow> exn + unit"
  sock_getsockname :: "log \<Rightarrow> exn + ipv4"
  sock_close :: "log \<Rightarrow> exn + unit"
  create_connection :: "log \<Rightarrow> string \<Rightarrow> int \<Rightarrow> int \<Rightarrow> exn + unit"
  conn_close :: "log \<Rightarrow> exn + unit"
  urlopen :: "log \<Rightarrow> string \<Rightarrow> int \<Rightarrow> exn + unit"
  resp_read :: "log \<Rightarrow> exn + string"
  resp_close :: "log \<Rightarrow> exn + unit"
  json_loads :: "string \<Rightarrow> exn + json"
  uuid_getnode :: "log \<Rightarrow> exn + int"

subsection \<open>Computations that may raise and that extend the log\<close>

type_synonym 'a io = "log \<Rightarrow> (exn + 'a) \<times> log"

definition return_io :: "'a \<Rightarrow> 'a io" where
  "return_io x = (\<lambda>h. (Inr x, h))"

definition bind_io :: "'a io \<Rightarrow> ('a \<Rightarrow> 'b io) \<Rightarrow> 'b io" where
  "bind_io m f = (\<lambda>h. case m h of (Inl e, h') \<Rightarrow> (Inl e, h') | (Inr x, h') \<Rightarrow> f x h')"

text \<open>An outside call: the environment answers from the log so far, the call is logged.\<close>

definition call :: "event \<Rightarrow> (log \<Rightarrow> exn + 'a) \<Rightarrow> 'a io" where
  "call ev f = (\<lambda>h. (f h, h @ [ev]))"

text \<open>\<^verbatim>\<open>try: m  except Exception as e: handler(e)\<close>\<close>

definition try_except :: "'a io \<Rightarrow> (exn \<Rightarrow> 'a io) \<Rightarrow> 'a io" where
  "try_except m handler =
     (\<lambda>h. case m h of (Inl e, h') \<Rightarrow> handler e h' | (Inr x, h') \<Rightarrow> (Inr x, h'))"

text \<open>
  \<^verbatim>\<open>try: m  finally: fin\<close>: \<open>fin\<close> runs in both cases; an exception of \<open>fin\<close> replaces the
  outcome of \<open>m\<close>.
\<close>

definition try_finally :: "'a io \<Rightarrow> unit io \<Rightarrow> 'a io" where
  "try_finally m fin =
     (\<lambda>h. case m h of (r, h') \<Rightarrow>
            (case fin h' of (Inl e, h'') \<Rightarrow> (Inl e, h'') | (Inr _, h'') \<Rightarrow> (r, h'')))"

subsection \<open>Strings\<close>

definition digit_char :: "nat \<Rightarrow> char" where
  "digit_char d = char_of (48 + d)"

text \<open>\<^verbatim>\<open>str(n)\<close> for an integer: decimal digits, a minus sign when negative.\<close>

fun str_nat :: "nat \<Rightarrow> string" where
  "str_nat n = (if n < 10 then [digit_char n] else str_nat (n div 10) @ [digit_char (n mod 10)])"

declare str_nat.simps [simp del]

definition str_int :: "int \<Rightarrow> string" where
  "str_int i = (if i < 0 then CHR ''-'' # str_nat (nat (- i)) else str_nat (nat i))"

text \<open>
  \<^verbatim>\<open>str.lower\<close>. Only the letters A to Z are mapped: no other character below 256 has a
  lower-case form among the ASCII letters, so the comparison with \<^verbatim>\<open>"windows"\<close> is exact.
\<close>

definition lower_char :: "char \<Rightarrow> char" where
  "lower_char c =
     (let n = (of_char c :: nat) in if 65 \<le> n \<and> n \<le> 90 then char_of (n + 32) else c)"

definition lower :: "string \<Rightarrow> string" where
  "lower s = map lower_char s"

text \<open>\<^verbatim>\<open>str.isspace\<close> on the code points below 256, and \<^verbatim>\<open>str.strip()\<close>.\<close>

definition isspace :: "char \<Rightarrow> bool" where
  "isspace c = (let n = (of_char c :: nat) in
       (9 \<le> n \<and> n \<le> 13) \<or> (28 \<le> n \<and> n \<le> 32) \<or> n = 133 \<or> n = 160)"

definition strip :: "string \<Rightarrow> string" where
  "strip s = rev (dropWhile isspace (rev (dropWhile isspace s)))"

section \<open>ping\_host and ping\<close>

text \<open>An omitted keyword argument is \<open>None\<close> and takes the default of the signature.\<close>

definition default_arg :: "'a \<Rightarrow> 'a option \<Rightarrow> 'a" where
  "default_arg d a = (case a of None \<Rightarrow> d | Some v \<Rightarrow> v)"

text \<open>The body of the \<^verbatim>\<open>try\<close> block of \<^verbatim>\<open>ping_host\<close>, with \<open>count\<close> and \<open>timeout\<close> given.\<close>

definition ping_args :: "string \<Rightarrow> string \<Rightarrow> int \<Rightarrow> int \<Rightarrow> string list" where
  "ping_args system host count timeout =
     (if system = ''windows''
      then [''ping'', ''-n'', str_int count, ''-w'', str_int (timeout * 1000), host]
      else [''ping'', ''-c'', str_int count, ''-W'', str_int timeout, host])"

definition ping_output :: "completed_process \<Rightarrow> string" where
  "ping_output completed =
     (case stdout completed of None \<Rightarrow> [] | Some out \<Rightarrow> out) @
     (case stderr completed of
        None \<Rightarrow> []
      | Some err \<Rightarrow> if err \<noteq> [] then [CHR 0x0A] @ err else [])"

definition ping_host_try :: "env \<Rightarrow> string \<Rightarrow> int \<Rightarrow> int \<Rightarrow> (bool \<times> string) io" where
  "ping_host_try E host count timeout =
     bind_io (call (EWhich ''ping'') (\<lambda>h. shutil_which E h ''ping'')) (\<lambda>found.
       case found of
         None \<Rightarrow> return_io (False, ''ping utility not found'')
       | Some _ \<Rightarrow>
           bind_io (call ESystem (platform_system E)) (\<lambda>name.
             let system = lower name;
                 args = ping_args system host count timeout;
                 limit = max 10 (count * timeout + 5)
             in bind_io (call (ERun args limit) (\<lambda>h. subprocess_run E h args limit))
                  (\<lambda>completed.
                     return_io (returncode completed = 0, strip (ping_output completed)))))"

definition ping_host :: "env \<Rightarrow> string \<Rightarrow> int option \<Rightarrow> int option \<Rightarrow> (bool \<times> string) io" where
  "ping_host E host count timeout =
     try_except (ping_host_try E host (default_arg 4 count) (default_arg 2 timeout))
       (\<lambda>e. case e of
               TimeoutExpired \<Rightarrow> return_io (False, ''ping command timed out'')
             | OtherException msg \<Rightarrow> return_io (False, msg))"

definition ping :: "env \<Rightarrow> string \<Rightarrow> int option \<Rightarrow> int option \<Rightarrow> bool io" where
  "ping E host timeout count =
     try_except
       (bind_io (ping_host E host (Some (default_arg 1 count)) (Some (default_arg 2 timeout)))
          (\<lambda>(reachable, _). return_io reachable))
       (\<lambda>e. return_io False)"

section \<open>is\_online\<close>

text \<open>
  The function returns \<^verbatim>\<open>True\<close> from inside the loop and has no \<^verbatim>\<open>return\<close> after it: falling
  through gives Python's \<^verbatim>\<open>None\<close>, here \<open>None\<close>.
\<close>

definition dns_servers :: "string list" where
  "dns_servers = [''1.1.1.1'', ''8.8.8.8'', ''9.9.9.9'']"

fun is_online_loop :: "env \<Rightarrow> int \<Rightarrow> string list \<Rightarrow> bool option io" where
  "is_online_loop E timeout [] = return_io None"
| "is_online_loop E timeout (server # rest) =
     bind_io (ping E server (Some timeout) None) (\<lambda>r.
       if r then return_io (Some True) else is_online_loop E timeout rest)"

definition is_online :: "env \<Rightarrow> int \<Rightarrow> bool option io" where
  "is_online E timeout = is_online_loop E timeout dns_servers"

section \<open>get\_local\_ip\<close>




section \<open>get\_public\_ip\<close>








section \<open>get\_mac\_address\<close>

definition hex_char :: "nat \<Rightarrow> char" where
  "hex_char d = (if d < 10 then char_of (48 + d) else char_of (87 + d))"

fun hex_nat :: "nat \<Rightarrow> string" where
  "hex_nat n = (if n < 16 then [hex_char n] else hex_nat (n div 16) @ [hex_char (n mod 16)])"

declare hex_nat.simps [simp del]

text \<open>The format \<^verbatim>\<open>02x\<close>: lower-case hexadecimal, zeros after the sign up to width 2.\<close>

definition format_02x :: "int \<Rightarrow> string" where
  "format_02x x =
     (if x < 0
      then (let ds = hex_nat (nat (- x)) in CHR ''-'' # replicate (1 - length ds) CHR ''0'' @ ds)
      else (let ds = hex_nat (nat x) in replicate (2 - length ds) CHR ''0'' @ ds))"

fun join :: "string \<Rightarrow> string list \<Rightarrow> string" where
  "join sep [] = []"
| "join sep [x] = x"
| "join sep (x # y # ys) = x @ sep @ join sep (y # ys)"

text \<open>\<^verbatim>\<open>range(40, -1, -8)\<close>\<close>

definition mac_shifts :: "nat list" where
  "mac_shifts = [40, 32, 24, 16, 8, 0]"

definition mac_str :: "int \<Rightarrow> string" where
  "mac_str mac = join '':'' (map (\<lambda>ele. format_02x (drop_bit ele mac AND 0xff)) mac_shifts)"

definition get_mac_address :: "env \<Rightarrow> string io" where
  "get_mac_address E =
     try_except (bind_io (call EGetNode (uuid_getnode E)) (\<lambda>mac. return_io (mac_str mac)))
       (\<lambda>e. return_io ''00:00:00:00:00:00'')"

section \<open>is\_port\_open\<close>

definition tuple_is_port_open :: "env \<Rightarrow> string \<Rightarrow> int \<Rightarrow> int \<Rightarrow> (bool \<times> string) io" where
  "tuple_is_port_open E host port timeout =
     bind_io (ping E host (Some timeout) None) (\<lambda>r.
       if r = False then return_io (False, ''Host unreachable'')
       else
         try_except
           (try_except
              (bind_io
                 (call (ECreateConnection host port timeout)
                    (\<lambda>h. create_connection E h host port timeout))
                 (\<lambda>_. bind_io (call EConnClose (conn_close E))
                    (\<lambda>_. return_io (True, str_int port @ '' is open''))))
              (\<lambda>e. return_io (False, str_int port @ '' is closed'')))
           (\<lambda>e. return_io (False, str_int port @ '' is closed'')))"

datatype port_result = PBool bool | PTuple bool string

definition is_port_open :: "env \<Rightarrow> string \<Rightarrow> int \<Rightarrow> int \<Rightarrow> bool \<Rightarrow> port_result io" where
  "is_port_open E host port timeout returntuple =
     (if returntuple
      then bind_io (tuple_is_port_open E host port timeout) (\<lambda>(b, msg). return_io (PTuple b msg))
      else bind_io (tuple_is_port_open E host port timeout) (\<lambda>t. return_io (PBool (fst t))))"

text \<open>Truth value of what \<^verbatim>\<open>is_port_open\<close> returns: a tuple of two is never empty.\<close>

fun result_truthy :: "port_result \<Rightarrow> bool" where
  "result_truthy (PBool b) = b"
| "result_truthy (PTuple b msg) = True"

section \<open>ping\_list, free\_port\_scanner, scan\_ports\_list\<close>

text \<open>
  A dictionary is the list of its items in insertion order; \<^verbatim>\<open>results[k] = v\<close> replaces
  the value of a key already there and appends a new key.
\<close>

fun ping_list_loop ::
  "env \<Rightarrow> int \<Rightarrow> int \<Rightarrow> (string \<times> bool) list \<Rightarrow> string list \<Rightarrow> (string \<times> bool) list io" where
  "ping_list_loop E timeout count results [] = return_io results"
| "ping_list_loop E timeout count results (host # rest) =
     bind_io (ping E host (Some timeout) (Some count)) (\<lambda>r.
       ping_list_loop E timeout count (AList.update host r results) rest)"

definition ping_list :: "env \<Rightarrow> string list \<Rightarrow> int \<Rightarrow> int \<Rightarrow> (string \<times> bool) list io" where
  "ping_list E hosts timeout count = ping_list_loop E timeout count [] hosts"

definition RED :: string where "RED = [char_of (27::nat)] @ ''[91m''"
definition GREEN :: string where "GREEN = [char_of (27::nat)] @ ''[92m''"
definition RESET :: string where "RESET = [char_of (27::nat)] @ ''[0m''"

text \<open>The line \<^verbatim>\<open>print\<close> writes for a port; writing it is logged and is taken not to fail.\<close>

definition progress_line :: "int \<Rightarrow> bool \<Rightarrow> string" where
  "progress_line port resalt =
     (if resalt then ''Checked port '' @ str_int port @ '' '' @ GREEN @ '' Free'' @ RESET
      else ''Checked port '' @ str_int port @ '' '' @ RED @ '' Used'' @ RESET)"

fun free_port_loop ::
  "env \<Rightarrow> string \<Rightarrow> int \<Rightarrow> bool \<Rightarrow> int list \<Rightarrow> int list \<Rightarrow> int list io" where
  "free_port_loop E host timeout show_progress open_ports [] = return_io open_ports"
| "free_port_loop E host timeout show_progress open_ports (port # rest) =
     bind_io (is_port_open E host port timeout False) (\<lambda>r.
       let resalt = (\<not> result_truthy r);
           open_ports' = (if resalt then open_ports @ [port] else open_ports)
       in bind_io
            (if show_progress
             then call (EPrint (progress_line port resalt)) (\<lambda>h. Inr ())
             else return_io ())
            (\<lambda>_. free_port_loop E host timeout show_progress open_ports' rest))"




section \<open>Shapes of the results\<close>

text \<open>\<^verbatim>\<open>s.split(c)\<close>: the pieces of \<open>s\<close> between the occurrences of \<open>c\<close>.\<close>

fun split_on :: "char \<Rightarrow> string \<Rightarrow> string list" where
  "split_on c [] = [[]]"
| "split_on c (x # xs) =
     (if x = c then [] # split_on c xs
      else (x # hd (split_on c xs)) # tl (split_on c xs))"





definition is_lower_hex :: "char \<Rightarrow> bool" where
  "is_lower_hex c = (let n = (of_char c :: nat) in (48 \<le> n \<and> n \<le> 57) \<or> (97 \<le> n \<and> n \<le> 102))"

definition hex_digit_val :: "char \<Rightarrow> nat" where
  "hex_digit_val c = (let n = (of_char c :: nat) in if n \<le> 57 then n - 48 else n - 87)"

definition hex_val :: "string \<Rightarrow> nat" where
  "hex_val s = foldl (\<lambda>a c. 16 * a + hex_digit_val c) 0 s"

definition is_hex_pair :: "string \<Rightarrow> bool" where
  "is_hex_pair g = (length g = 2 \<and> list_all is_lower_hex g)"

text \<open>A MAC address: six groups of two lower-case hexadecimal digits between colons.\<close>

definition is_mac :: "string \<Rightarrow> bool" where
  "is_mac s = (length (split_on CHR '':'' s) = 6 \<and> list_all is_hex_pair (split_on CHR '':'' s))"

text \<open>Byte \<open>k\<close> of an identifier, byte 0 the least significant.\<close>

definition byte_of :: "int \<Rightarrow> nat \<Rightarrow> nat" where
  "byte_of mac k = nat ((mac div 2 ^ (8 * k)) mod 256)"

text \<open>The log entries that are attempts to open a TCP connection.\<close>

fun is_connect :: "event \<Rightarrow> bool" where
  "is_connect (ECreateConnection host port timeout) = True"
| "is_connect _ = False"

section \<open>Sample environments\<close>

text \<open>A host on a network where everything answers; only port 80 accepts connections.\<close>

definition env_up :: env where
  "env_up =
     \<lparr>shutil_which = (\<lambda>h name. Inr (Some ''/bin/ping'')),
      platform_system = (\<lambda>h. Inr ''Linux''),
      subprocess_run = (\<lambda>h args limit.
         Inr \<lparr>returncode = 0, stdout = Some ''1 received'', stderr = Some []\<rparr>),
      socket_socket = (\<lambda>h. Inr ()),
      sock_settimeout = (\<lambda>h. Inr ()),
      sock_connect = (\<lambda>h address port. Inr ()),
      sock_getsockname = (\<lambda>h. Inr (192, 168, 1, 7)),
      sock_close = (\<lambda>h. Inr ()),
      create_connection = (\<lambda>h host port timeout.
         if port = 80 then Inr () else Inl (OtherException ''Connection refused'')),
      conn_close = (\<lambda>h. Inr ()),
      urlopen = (\<lambda>h url timeout. Inr ()),
      resp_read = (\<lambda>h. Inr ''203.0.113.9''),
      resp_close = (\<lambda>h. Inr ()),
      json_loads = (\<lambda>s. Inl (OtherException ''Expecting value'')),
      uuid_getnode = (\<lambda>h. Inr 0x0123456789ab)\<rparr>"

text \<open>No host answers a ping, whatever its ports do.\<close>

definition env_down :: env where
  "env_down = env_up
     \<lparr>subprocess_run := (\<lambda>h args limit.
         Inr \<lparr>returncode = 1, stdout = Some ''0 received'', stderr = Some []\<rparr>)\<rparr>"

text \<open>Only 8.8.8.8 answers a ping.\<close>

definition env_second :: env where
  "env_second = env_up
     \<lparr>subprocess_run := (\<lambda>h args limit.
         Inr \<lparr>returncode = (if last args = ''8.8.8.8'' then 0 else 1),
              stdout = Some [], stderr = Some []\<rparr>)\<rparr>"

text \<open>The first ping of a session is answered, the later ones are not.\<close>

definition env_flaky :: env where
  "env_flaky = env_up
     \<lparr>subprocess_run := (\<lambda>h args limit.
         Inr \<lparr>returncode = (if length h < 3 then 0 else 1),
              stdout = Some [], stderr = Some []\<rparr>)\<rparr>"

text \<open>The ping process does not finish in time; there is no ping utility.\<close>

definition env_timeout :: env where
  "env_timeout = env_up \<lparr>subprocess_run := (\<lambda>h args limit. Inl TimeoutExpired)\<rparr>"

definition env_noping :: env where
  "env_noping = env_up \<lparr>shutil_which := (\<lambda>h name. Inr None)\<rparr>"

text \<open>
  A host with IPv6 connectivity only: the first endpoint cannot be reached, the second
  answers with the address it sees.
\<close>

definition env_ipv6 :: env where
  "env_ipv6 = env_up
     \<lparr>urlopen := (\<lambda>h url timeout.
         if url = ''https://ifconfig.me/ip'' then Inr ()
         else Inl (OtherException ''timed out'')),
      resp_read := (\<lambda>h. Inr (''2001:db8::1'' @ [CHR 0x0A]))\<rparr>"

text \<open>The hardware identifier cannot be read.\<close>

definition env_nonode :: env where
  "env_nonode = env_up \<lparr>uuid_getnode := (\<lambda>h. Inl (OtherException ''no node''))\<rparr>"

section \<open>Evaluation and basic facts\<close>

lemma ping_host_try_unfold:
  "ping_host_try E host c t h =
     (case shutil_which E h ''ping'' of
        Inl e \<Rightarrow> (Inl e, h @ [EWhich ''ping''])
      | Inr None \<Rightarrow> (Inr (False, ''ping utility not found''), h @ [EWhich ''ping''])
      | Inr (Some p) \<Rightarrow>
         (case platform_system E (h @ [EWhich ''ping'']) of
            Inl e \<Rightarrow> (Inl e, h @ [EWhich ''ping'', ESystem])
          | Inr name \<Rightarrow>
             (case subprocess_run E (h @ [EWhich ''ping'', ESystem])
                      (ping_args (lower name) host c t) (max 10 (c * t + 5)) of
                Inl e \<Rightarrow> (Inl e, h @ [EWhich ''ping'', ESystem,
                             ERun (ping_args (lower name) host c t) (max 10 (c * t + 5))])
              | Inr completed \<Rightarrow>
                  (Inr (returncode completed = 0, strip (ping_output completed)),
                   h @ [EWhich ''ping'', ESystem,
                        ERun (ping_args (lower name) host c t) (max 10 (c * t + 5))]))))"
  unfolding ping_host_try_def bind_io_def call_def return_io_def Let_def
  by (simp split: sum.splits option.splits)

lemma ping_host_total:
  "\<exists>r h'. ping_host E host count timeout h = (Inr r, h')"
  unfolding ping_host_def try_except_def return_io_def
  by (auto split: prod.splits sum.splits exn.splits)

lemma ping_host_log:
  "\<exists>evs. snd (ping_host E host count timeout h) = h @ evs \<and> \<not> list_ex is_connect evs"
  unfolding ping_host_def try_except_def return_io_def ping_host_try_unfold
  by (auto split: prod.splits sum.splits exn.splits option.splits)

lemma ping_unfold:
  "ping E host timeout count h =
     (Inr (fst (projr (fst (ping_host E host (Some (default_arg 1 count))
                               (Some (default_arg 2 timeout)) h)))),
      snd (ping_host E host (Some (default_arg 1 count)) (Some (default_arg 2 timeout)) h))"
  using ping_host_total [of E host "Some (default_arg 1 count)" "Some (default_arg 2 timeout)" h]
  unfolding ping_def try_except_def bind_io_def return_io_def
  by (auto split: prod.splits sum.splits)

lemma ping_total: "\<exists>b h'. ping E host timeout count h = (Inr b, h')"
  by (simp add: ping_unfold)

lemma ping_log:
  "\<exists>evs. snd (ping E host timeout count h) = h @ evs \<and> \<not> list_ex is_connect evs"
  using ping_host_log [of E host "Some (default_arg 1 count)" "Some (default_arg 2 timeout)" h]
  by (simp add: ping_unfold)


text \<open>
  Claim C6. \<^verbatim>\<open>ping(host, timeout, count)\<close> returns the first component of what
  \<^verbatim>\<open>ping_host(host, count=count, timeout=timeout)\<close> returns, on the same log; an omitted
  \<open>count\<close> is 1; and whenever the probe raises inside \<^verbatim>\<open>ping_host\<close>, \<^verbatim>\<open>ping\<close> returns
  \<^verbatim>\<open>False\<close> and raises nothing.
\<close>

theorem ping_is_fst_ping_host:
  "(\<exists>reachable output h'.
      ping_host E host (Some (default_arg 1 count)) (Some (default_arg 2 timeout)) h
        = (Inr (reachable, output), h') \<and>
      ping E host timeout count h = (Inr reachable, h')) \<and>
   ping E host timeout None h = ping E host timeout (Some 1) h \<and>
   (\<forall>e. fst (ping_host_try E host (default_arg 1 count) (default_arg 2 timeout) h) = Inl e
      \<longrightarrow> fst (ping E host timeout count h) = Inr False)"
proof (intro conjI allI impI)
  obtain r h' where r: "ping_host E host (Some (default_arg 1 count))
      (Some (default_arg 2 timeout)) h = (Inr r, h')"
    using ping_host_total by blast
  then show "\<exists>reachable output h'.
      ping_host E host (Some (default_arg 1 count)) (Some (default_arg 2 timeout)) h
        = (Inr (reachable, output), h') \<and>
      ping E host timeout count h = (Inr reachable, h')"
    by (cases r) (simp add: ping_unfold)
next
  show "ping E host timeout None h = ping E host timeout (Some 1) h"
    by (simp add: ping_def default_arg_def)
next
  fix e
  assume "fst (ping_host_try E host (default_arg 1 count) (default_arg 2 timeout) h) = Inl e"
  then show "fst (ping E host timeout count h) = Inr False"
    unfolding ping_unfold ping_host_def try_except_def return_io_def
    by (auto simp: default_arg_def split: prod.splits sum.splits exn.splits)
qed

lemma tuple_is_port_open_unfold:
  "tuple_is_port_open E host port timeout h =
     (case ping E host (Some timeout) None h of
        (Inl e, h1) \<Rightarrow> (Inl e, h1)
      | (Inr r, h1) \<Rightarrow>
          if \<not> r then (Inr (False, ''Host unreachable''), h1)
          else
            (case create_connection E h1 host port timeout of
               Inl e \<Rightarrow> (Inr (False, str_int port @ '' is closed''),
                          h1 @ [ECreateConnection host port timeout])
             | Inr u \<Rightarrow>
                 (case conn_close E (h1 @ [ECreateConnection host port timeout]) of
                    Inl e \<Rightarrow> (Inr (False, str_int port @ '' is closed''),
                               h1 @ [ECreateConnection host port timeout, EConnClose])
                  | Inr u \<Rightarrow> (Inr (True, str_int port @ '' is open''),
                               h1 @ [ECreateConnection host port timeout, EConnClose]))))"
  unfolding tuple_is_port_open_def bind_io_def try_except_def call_def return_io_def
  by (simp split: prod.splits sum.splits)

lemma tuple_is_port_open_total:
  "\<exists>b msg h'. tuple_is_port_open E host port timeout h = (Inr (b, msg), h')"
  using ping_total [of E host "Some timeout" None h]
  unfolding tuple_is_port_open_unfold
  by (auto split: sum.splits)

lemma is_port_open_total:
  "\<exists>b h'. is_port_open E host port timeout False h = (Inr (PBool b), h')"
  using tuple_is_port_open_total [of E host port timeout h]
  unfolding is_port_open_def bind_io_def return_io_def
  by auto


text \<open>
  Claim C2. When the ping of the host returns \<^verbatim>\<open>False\<close>, \<^verbatim>\<open>is_port_open\<close> with
  \<^verbatim>\<open>returntuple=True\<close> returns \<^verbatim>\<open>(False, "Host unreachable")\<close>; the log is the one the ping
  left, and it holds no attempt to connect beyond those already there.
\<close>

theorem is_port_open_host_unreachable:
  assumes "fst (ping E host (Some timeout) None h) = Inr False"
  shows "is_port_open E host port timeout True h =
           (Inr (PTuple False ''Host unreachable''), snd (ping E host (Some timeout) None h)) \<and>
         filter is_connect (snd (is_port_open E host port timeout True h)) = filter is_connect h"
proof -
  obtain h1 where p: "ping E host (Some timeout) None h = (Inr False, h1)"
    using assms by (cases "ping E host (Some timeout) None h") simp
  have res: "is_port_open E host port timeout True h =
      (Inr (PTuple False ''Host unreachable''), h1)"
    unfolding is_port_open_def bind_io_def return_io_def tuple_is_port_open_unfold
    by (simp add: p)
  obtain evs where "h1 = h @ evs" "\<not> list_ex is_connect evs"
    using ping_log [of E host "Some timeout" None h] p by auto
  then have "filter is_connect h1 = filter is_connect h"
    by (simp add: list_ex_iff filter_empty_conv)
  with res p show ?thesis by simp
qed

lemma is_online_unfold:
  "is_online E timeout h =
     (case ping E ''1.1.1.1'' (Some timeout) None h of
        (Inl e, h1) \<Rightarrow> (Inl e, h1)
      | (Inr r1, h1) \<Rightarrow>
          if r1 then (Inr (Some True), h1)
          else (case ping E ''8.8.8.8'' (Some timeout) None h1 of
                  (Inl e, h2) \<Rightarrow> (Inl e, h2)
                | (Inr r2, h2) \<Rightarrow>
                    if r2 then (Inr (Some True), h2)
                    else (case ping E ''9.9.9.9'' (Some timeout) None h2 of
                            (Inl e, h3) \<Rightarrow> (Inl e, h3)
                          | (Inr r3, h3) \<Rightarrow>
                              if r3 then (Inr (Some True), h3) else (Inr None, h3))))"
  unfolding is_online_def dns_servers_def
  by (simp add: bind_io_def return_io_def split: prod.splits sum.splits)

text \<open>
  Claim C3. \<^verbatim>\<open>is_online\<close> pings 1.1.1.1, then 8.8.8.8, then 9.9.9.9; at the first ping that
  succeeds it returns \<^verbatim>\<open>True\<close> with the log of the pings made so far, so the later servers
  are not probed; when the three fail it returns \<^verbatim>\<open>None\<close>, not \<^verbatim>\<open>False\<close>.
\<close>

theorem is_online_first_success:
  "\<exists>r1 h1.
     ping E ''1.1.1.1'' (Some timeout) None h = (Inr r1, h1) \<and>
     (if r1 then is_online E timeout h = (Inr (Some True), h1)
      else \<exists>r2 h2.
        ping E ''8.8.8.8'' (Some timeout) None h1 = (Inr r2, h2) \<and>
        (if r2 then is_online E timeout h = (Inr (Some True), h2)
         else \<exists>r3 h3.
           ping E ''9.9.9.9'' (Some timeout) None h2 = (Inr r3, h3) \<and>
           (if r3 then is_online E timeout h = (Inr (Some True), h3)
            else is_online E timeout h = (Inr None, h3))))"
proof -
  obtain r1 h1 where p1: "ping E ''1.1.1.1'' (Some timeout) None h = (Inr r1, h1)"
    using ping_total by blast
  obtain r2 h2 where p2: "ping E ''8.8.8.8'' (Some timeout) None h1 = (Inr r2, h2)"
    using ping_total by blast
  obtain r3 h3 where p3: "ping E ''9.9.9.9'' (Some timeout) None h2 = (Inr r3, h3)"
    using ping_total by blast
  show ?thesis
    unfolding is_online_unfold by (simp add: p1 p2 p3)
qed

lemmas io_defs = return_io_def bind_io_def call_def try_except_def try_finally_def
lemma digit_chars:
  "digit_char 0 = CHR ''0''" "digit_char 1 = CHR ''1''" "digit_char 2 = CHR ''2''"
  "digit_char 3 = CHR ''3''" "digit_char 4 = CHR ''4''" "digit_char 5 = CHR ''5''"
  "digit_char 6 = CHR ''6''" "digit_char 7 = CHR ''7''" "digit_char 8 = CHR ''8''"
  "digit_char 9 = CHR ''9''" "digit_char (Suc 0) = CHR ''1''"
  by (simp_all add: digit_char_def char_of_def bit_0)

lemmas str_defs = str_int_def str_nat.simps [of "numeral n" for n] str_nat.simps [of 0]
  str_nat.simps [of 1] str_nat.simps [of "Suc 0"] digit_chars lower_def lower_char_def
  strip_def isspace_def
lemmas ping_defs = ping_def ping_host_def ping_host_try_def ping_args_def ping_output_def
  default_arg_def Let_def
lemmas env_defs = env_up_def env_down_def env_second_def env_flaky_def env_timeout_def
  env_noping_def env_ipv6_def env_nonode_def



text \<open>
  The same where the ping process times out, and where the host answers.
\<close>

theorem ping_is_fst_ping_host_witness:
  "fst (ping_host_try env_timeout ''10.0.0.1'' (default_arg 1 None) (default_arg 2 (Some 3)) [])
     = Inl TimeoutExpired \<and>
   fst (ping env_timeout ''10.0.0.1'' (Some 3) None []) = Inr False \<and>
   fst (ping env_up ''10.0.0.1'' (Some 3) None []) = Inr True"
  using ping_is_fst_ping_host [of env_timeout "''10.0.0.1''" None "Some 3" "[]"]
    ping_is_fst_ping_host [of env_up "''10.0.0.1''" None "Some 3" "[]"]
  by (simp add: io_defs str_defs ping_defs env_defs)

lemmas port_defs = is_port_open_def tuple_is_port_open_def

text \<open>
  The same on a host that does not answer a ping although its port 80 would accept a
  connection.
\<close>

theorem is_port_open_host_unreachable_witness:
  "fst (ping env_down ''10.0.0.1'' (Some 1) None []) = Inr False \<and>
   create_connection env_down (snd (ping env_down ''10.0.0.1'' (Some 1) None [])) ''10.0.0.1'' 80 1
     = Inr () \<and>
   is_port_open env_down ''10.0.0.1'' 80 1 True [] =
     (Inr (PTuple False ''Host unreachable''),
      [EWhich ''ping'', ESystem, ERun [''ping'', ''-c'', ''1'', ''-W'', ''1'', ''10.0.0.1''] 10])"
  using is_port_open_host_unreachable [of env_down "''10.0.0.1''" 1 "[]" 80]
  by (simp add: io_defs str_defs ping_defs env_defs port_defs)


text \<open>
  The three cases: where only the second server answers, where none does, and where all do.
\<close>

theorem is_online_first_success_witness:
  "is_online env_second 5 [] =
     (Inr (Some True),
      [EWhich ''ping'', ESystem, ERun [''ping'', ''-c'', ''1'', ''-W'', ''5'', ''1.1.1.1''] 10,
       EWhich ''ping'', ESystem, ERun [''ping'', ''-c'', ''1'', ''-W'', ''5'', ''8.8.8.8''] 10]) \<and>
   fst (is_online env_down 5 []) = Inr None \<and>
   fst (is_online env_up 5 []) = Inr (Some True)"
  using is_online_first_success [of env_second 5 "[]"]
    is_online_first_success [of env_down 5 "[]"]
    is_online_first_success [of env_up 5 "[]"]
  by (simp add: io_defs str_defs ping_defs env_defs is_online_def dns_servers_def)

section \<open>The loops over hosts and ports\<close>

lemma ping_list_loop_append:
  "ping_list_loop E t c acc (xs @ ys) h =
     (case ping_list_loop E t c acc xs h of
        (Inl e, h') \<Rightarrow> (Inl e, h')
      | (Inr acc', h') \<Rightarrow> ping_list_loop E t c acc' ys h')"
proof (induction xs arbitrary: acc h)
  case Nil
  then show ?case by (simp add: return_io_def)
next
  case (Cons x xs)
  then show ?case
    by (simp add: bind_io_def split: prod.splits sum.splits)
qed

lemma ping_list_loop_total:
  "\<exists>r h'. ping_list_loop E t c acc xs h = (Inr r, h')"
proof (induction xs arbitrary: acc h)
  case Nil
  then show ?case by (simp add: return_io_def)
next
  case (Cons x xs)
  obtain b h1 where "ping E x (Some t) (Some c) h = (Inr b, h1)"
    using ping_total by blast
  with Cons show ?case by (simp add: bind_io_def)
qed

lemma ping_list_loop_keys:
  "ping_list_loop E t c acc xs h = (Inr r, h') \<Longrightarrow>
     fst ` set r = fst ` set acc \<union> set xs \<and>
     (distinct (map fst acc) \<longrightarrow> distinct (map fst r)) \<and>
     (\<forall>k. k \<notin> set xs \<longrightarrow> map_of r k = map_of acc k)"
proof (induction xs arbitrary: acc h)
  case Nil
  then show ?case by (simp add: return_io_def)
next
  case (Cons x xs)
  obtain b h1 where p: "ping E x (Some t) (Some c) h = (Inr b, h1)"
    using ping_total by blast
  with Cons.prems have "ping_list_loop E t c (AList.update x b acc) xs h1 = (Inr r, h')"
    by (simp add: bind_io_def)
  from Cons.IH [OF this] show ?case
    by (auto simp: AList.dom_update AList.distinct_update AList.update_conv')
qed

text \<open>
  Claim C8. \<^verbatim>\<open>ping_list\<close> returns a dictionary whose keys are exactly the hosts of the
  list, each once. The hosts are pinged one after the other: the value of a host is what
  \<^verbatim>\<open>ping(host, timeout=timeout, count=count)\<close> returned at its last occurrence in the
  list, in the state of the world left by the pings of the hosts before it.
\<close>

theorem ping_list_keys_and_values:
  "\<exists>results h'.
     ping_list E hosts timeout count h = (Inr results, h') \<and>
     set (map fst results) = set hosts \<and> distinct (map fst results) \<and>
     (\<forall>pre host post. hosts = pre @ host # post \<and> host \<notin> set post \<longrightarrow>
        (\<exists>b h''. ping E host (Some timeout) (Some count)
                    (snd (ping_list E pre timeout count h)) = (Inr b, h'') \<and>
                  map_of results host = Some b))"
proof -
  obtain results h' where r: "ping_list_loop E timeout count [] hosts h = (Inr results, h')"
    using ping_list_loop_total by blast
  have keys: "set (map fst results) = set hosts" "distinct (map fst results)"
    using ping_list_loop_keys [OF r] by auto
  have vals: "\<exists>b h''. ping E host (Some timeout) (Some count)
                    (snd (ping_list E pre timeout count h)) = (Inr b, h'') \<and>
                  map_of results host = Some b"
    if split: "hosts = pre @ host # post" and last: "host \<notin> set post" for pre host post
  proof -
    obtain acc1 h1 where a: "ping_list_loop E timeout count [] pre h = (Inr acc1, h1)"
      using ping_list_loop_total by blast
    obtain b h2 where p: "ping E host (Some timeout) (Some count) h1 = (Inr b, h2)"
      using ping_total by blast
    have "ping_list_loop E timeout count (AList.update host b acc1) post h2 = (Inr results, h')"
      using r a p unfolding split ping_list_loop_append by (simp add: bind_io_def)
    from ping_list_loop_keys [OF this] last
    have "map_of results host = Some b" by (simp add: AList.update_conv')
    with a p show ?thesis by (simp add: ping_list_def)
  qed
  from r keys vals show ?thesis unfolding ping_list_def by blast
qed

text \<open>
  The same on a list that names a host twice, where only the first ping of the session is
  answered: the second ping of that host decides its value.
\<close>

theorem ping_list_keys_and_values_witness:
  "[''a'', ''b'', ''a''] = [''a'', ''b''] @ ''a'' # [] \<and> ''a'' \<notin> set [] \<and>
   fst (ping_list env_flaky [''a'', ''b'', ''a''] 2 1 []) = Inr [(''a'', False), (''b'', False)] \<and>
   fst (ping env_flaky ''a'' (Some 2) (Some 1) (snd (ping_list env_flaky [''a'', ''b''] 2 1 [])))
     = Inr False \<and>
   fst (ping_list env_flaky [''a'', ''b''] 2 1 []) = Inr [(''a'', True), (''b'', False)]"
proof -
  have ev: "ping_list env_flaky [''a'', ''b'', ''a''] 2 1 [] =
     (Inr [(''a'', False), (''b'', False)],
      [EWhich ''ping'', ESystem, ERun [''ping'', ''-c'', ''1'', ''-W'', ''2'', ''a''] 10,
       EWhich ''ping'', ESystem, ERun [''ping'', ''-c'', ''1'', ''-W'', ''2'', ''b''] 10,
       EWhich ''ping'', ESystem, ERun [''ping'', ''-c'', ''1'', ''-W'', ''2'', ''a''] 10])"
    by (simp add: ping_list_def io_defs str_defs ping_defs env_defs)
  have ev2: "ping_list env_flaky [''a'', ''b''] 2 1 [] =
     (Inr [(''a'', True), (''b'', False)],
      [EWhich ''ping'', ESystem, ERun [''ping'', ''-c'', ''1'', ''-W'', ''2'', ''a''] 10,
       EWhich ''ping'', ESystem, ERun [''ping'', ''-c'', ''1'', ''-W'', ''2'', ''b''] 10])"
    by (simp add: ping_list_def io_defs str_defs ping_defs env_defs)
  show ?thesis
    using ping_list_keys_and_values [of env_flaky "[''a'', ''b'', ''a'']" 2 1 "[]"] ev ev2
    by (simp add: io_defs str_defs ping_defs env_defs)
qed






lemma free_port_loop_Cons:
  "is_port_open E host p t False h = (Inr (PBool b), h1) \<Longrightarrow>
   free_port_loop E host t sp acc (p # rest) h =
     free_port_loop E host t sp (if b then acc else acc @ [p]) rest
       (if sp then h1 @ [EPrint (progress_line p (\<not> b))] else h1)"
  by (cases sp; cases b) (simp_all add: bind_io_def call_def return_io_def Let_def)

lemma free_port_loop_total:
  "\<exists>r h'. free_port_loop E host t sp acc xs h = (Inr r, h')"
proof (induction xs arbitrary: acc h)
  case Nil
  then show ?case by (simp add: return_io_def)
next
  case (Cons x xs)
  obtain b h1 where "is_port_open E host x t False h = (Inr (PBool b), h1)"
    using is_port_open_total by blast
  from free_port_loop_Cons [OF this] Cons show ?case by (simp del: free_port_loop.simps)
qed






section \<open>The MAC address\<close>

lemma hex_nat_small: "n < 16 \<Longrightarrow> hex_nat n = [hex_char n]"
  by (simp add: hex_nat.simps)

lemma hex_nat_byte: "n < 256 \<Longrightarrow> 16 \<le> n \<Longrightarrow> hex_nat n = [hex_char (n div 16), hex_char (n mod 16)]"
  by (subst hex_nat.simps) (simp add: hex_nat_small less_mult_imp_div_less)

lemma hex_char_0: "hex_char 0 = CHR ''0''"
  by (simp add: hex_char_def char_of_def bit_0)

lemma format_02x_byte:
  "0 \<le> x \<Longrightarrow> x < 256 \<Longrightarrow>
   format_02x x = [hex_char (nat x div 16), hex_char (nat x mod 16)]"
  by (cases "nat x < 16")
     (simp_all add: format_02x_def hex_nat_small hex_nat_byte hex_char_0 [symmetric] Let_def)

lemma below_16:
  "d < 16 \<Longrightarrow> d = 0 \<or> d = 1 \<or> d = 2 \<or> d = 3 \<or> d = 4 \<or> d = 5 \<or> d = 6 \<or> d = 7 \<or>
     d = 8 \<or> d = 9 \<or> d = 10 \<or> d = 11 \<or> d = 12 \<or> d = 13 \<or> d = 14 \<or> d = (15::nat)"
  by arith

lemma hex_char_props:
  assumes "d < 16"
  shows "hex_char d \<noteq> CHR '':'' \<and> is_lower_hex (hex_char d) \<and> hex_digit_val (hex_char d) = d"
  using below_16 [OF assms]
  by (elim disjE) (simp_all add: hex_char_def is_lower_hex_def hex_digit_val_def char_of_def bit_0)

lemma byte_bounds: "0 \<le> drop_bit k (mac::int) AND 0xff" "drop_bit k (mac::int) AND 0xff < 256"
  "nat (drop_bit (8 * j) mac AND 0xff) = byte_of mac j"
proof -
  have m: "(0xff::int) = mask 8" by (simp add: mask_eq_exp_minus_1)
  show "0 \<le> drop_bit k mac AND 0xff" by simp
  show "drop_bit k mac AND 0xff < 256"
    unfolding m by (simp add: take_bit_eq_mask [symmetric] take_bit_eq_mod)
  show "nat (drop_bit (8 * j) mac AND 0xff) = byte_of mac j"
    unfolding m byte_of_def
    by (simp add: take_bit_eq_mask [symmetric] take_bit_eq_mod drop_bit_eq_div)
qed

lemma format_02x_byte_of:
  "format_02x (drop_bit (8 * j) mac AND 0xff) =
     [hex_char (byte_of mac j div 16), hex_char (byte_of mac j mod 16)]"
  using format_02x_byte [OF byte_bounds(1) byte_bounds(2), of "8 * j" mac]
  by (simp add: byte_bounds(3))

lemma mac_str_chars:
  "mac_str mac =
     [hex_char (byte_of mac 5 div 16), hex_char (byte_of mac 5 mod 16), CHR '':'',
      hex_char (byte_of mac 4 div 16), hex_char (byte_of mac 4 mod 16), CHR '':'',
      hex_char (byte_of mac 3 div 16), hex_char (byte_of mac 3 mod 16), CHR '':'',
      hex_char (byte_of mac 2 div 16), hex_char (byte_of mac 2 mod 16), CHR '':'',
      hex_char (byte_of mac 1 div 16), hex_char (byte_of mac 1 mod 16), CHR '':'',
      hex_char (byte_of mac 0 div 16), hex_char (byte_of mac 0 mod 16)]"
  using format_02x_byte_of [of 5 mac] format_02x_byte_of [of 4 mac] format_02x_byte_of [of 3 mac]
    format_02x_byte_of [of 2 mac] format_02x_byte_of [of 1 mac] format_02x_byte_of [of 0 mac]
  by (simp add: mac_str_def mac_shifts_def)

lemma byte_of_less: "byte_of mac k < 256"
  by (simp add: byte_of_def nat_less_iff)

lemma byte_digits: "byte_of mac k div 16 < 16" "byte_of mac k mod 16 < 16"
  using byte_of_less [of mac k] by simp_all

lemma hex_pair:
  "a < 16 \<Longrightarrow> b < 16 \<Longrightarrow>
   is_hex_pair [hex_char a, hex_char b] \<and> hex_val [hex_char a, hex_char b] = 16 * a + b"
  by (simp add: is_hex_pair_def hex_val_def hex_char_props)

lemma mac_str_groups:
  "split_on CHR '':'' (mac_str mac) =
     map (\<lambda>k. [hex_char (byte_of mac k div 16), hex_char (byte_of mac k mod 16)])
       [5, 4, 3, 2, 1, 0]"
  unfolding mac_str_chars
  by (simp add: hex_char_props byte_digits)

lemma mac_str_is_mac:
  "is_mac (mac_str mac) \<and> map hex_val (split_on CHR '':'' (mac_str mac)) =
     map (byte_of mac) [5, 4, 3, 2, 1, 0]"
  unfolding is_mac_def mac_str_groups
  by (simp add: hex_pair byte_digits)

text \<open>
  Claim C4. \<^verbatim>\<open>get_mac_address\<close> never raises and returns six groups of two lower-case
  hexadecimal digits between colons. When \<^verbatim>\<open>uuid.getnode()\<close> returns an identifier, whatever
  integer it is, the groups read as numbers are its bytes 5 down to 0: the most significant
  byte of the 48 bits comes first. When \<^verbatim>\<open>uuid.getnode()\<close> raises, the result is the zero MAC.
\<close>

theorem get_mac_address_format:
  "\<exists>s. fst (get_mac_address E h) = Inr s \<and> is_mac s \<and>
     (\<forall>mac. uuid_getnode E h = Inr mac \<longrightarrow>
        map hex_val (split_on CHR '':'' s) = map (byte_of mac) [5, 4, 3, 2, 1, 0]) \<and>
     (\<forall>e. uuid_getnode E h = Inl e \<longrightarrow> s = ''00:00:00:00:00:00'')"
proof (cases "uuid_getnode E h")
  case (Inl e)
  then have "fst (get_mac_address E h) = Inr ''00:00:00:00:00:00''"
    by (simp add: get_mac_address_def io_defs)
  moreover have "is_mac ''00:00:00:00:00:00''"
    by (simp add: is_mac_def is_hex_pair_def is_lower_hex_def)
  ultimately show ?thesis using Inl by simp
next
  case (Inr mac)
  then have "fst (get_mac_address E h) = Inr (mac_str mac)"
    by (simp add: get_mac_address_def io_defs)
  with Inr mac_str_is_mac [of mac] show ?thesis by simp
qed

lemma ev_mac: "mac_str 0x0123456789ab = ''01:23:45:67:89:ab''"
  by (simp add: mac_str_def mac_shifts_def format_02x_def hex_nat.simps [of "numeral n" for n]
        hex_nat.simps [of 0] hex_nat.simps [of 1] hex_nat.simps [of "Suc 0"] hex_char_def char_of_def bit_0 Let_def)

text \<open>
  The same for the identifier 0x0123456789ab, and where the identifier cannot be read.
\<close>

theorem get_mac_address_format_witness:
  "uuid_getnode env_up [] = Inr 0x0123456789ab \<and>
   fst (get_mac_address env_up []) = Inr ''01:23:45:67:89:ab'' \<and>
   map (byte_of 0x0123456789ab) [5, 4, 3, 2, 1, 0] = [0x01, 0x23, 0x45, 0x67, 0x89, 0xab] \<and>
   uuid_getnode env_nonode [] = Inl (OtherException ''no node'') \<and>
   fst (get_mac_address env_nonode []) = Inr ''00:00:00:00:00:00''"
  using get_mac_address_format [of env_up "[]"] get_mac_address_format [of env_nonode "[]"]
  by (simp add: get_mac_address_def io_defs env_defs ev_mac byte_of_def)

section \<open>The IP addresses\<close>


















end
